theory Spec2Isabelle
  imports Main "HOL-Library.Word"
begin

section \<open>Go values\<close>

text \<open>
  The gRPC front end of the TigerBeetle API (package \<open>grpc\<close>): \<open>NewApp\<close>, the flush
  function it hands to the timed buffer, \<open>CreateAccounts\<close> and \<open>CreateTransfers\<close>.

  An \<open>error\<close> value is one of the two sentinels of the package or an error produced by a
  collaborator (hex parsing, the TigerBeetle client), kept by its message. A call either
  returns such an error or panics.
\<close>

datatype go_error = ErrZeroAccounts | ErrZeroTransfers | LibError string

datatype panic = NilPointerDereference | InvalidConfiguration

datatype failure = Returned go_error | Panicked panic

type_synonym Uint128 = "128 word"

type_synonym Duration = int \<comment> \<open>\<open>time.Duration\<close>: nanoseconds\<close>

definition Millisecond :: Duration where
  "Millisecond = 1000000"

text \<open>
  The numeric fields of the wire messages are fixed-width Go integers whose declarations
  are generated code outside the package; a field is kept as the integer it denotes. A Go
  conversion \<open>uintN(x)\<close> sign- or zero-extends \<open>x\<close> to infinite precision and keeps the low
  \<open>N\<close> bits, which is \<open>word_of_int\<close> whatever the width of \<open>x\<close> was.
\<close>

definition uint16 :: "int \<Rightarrow> 16 word" where
  "uint16 x = word_of_int x"

definition uint32 :: "int \<Rightarrow> 32 word" where
  "uint32 x = word_of_int x"

definition uint64 :: "int \<Rightarrow> 64 word" where
  "uint64 x = word_of_int x"

definition ToUint128 :: "64 word \<Rightarrow> Uint128" where
  "ToUint128 x = ucast x"

definition FromPtrOr :: "'a option \<Rightarrow> 'a \<Rightarrow> 'a" where
  "FromPtrOr p fallback = (case p of None \<Rightarrow> fallback | Some v \<Rightarrow> v)"

section \<open>Wire messages and domain records\<close>

record proto_TransferFlags =
  pTF_Linked :: "bool option"
  pTF_Pending :: "bool option"
  pTF_PostPendingTransfer :: "bool option"
  pTF_VoidPendingTransfer :: "bool option"
  pTF_BalancingDebit :: "bool option"
  pTF_BalancingCredit :: "bool option"

text \<open>
  \<open>pT_TransferFlags\<close> is a pointer to a message: \<open>None\<close> is the nil pointer. \<open>pT_Code\<close> is
  the request's own code, which \<open>CreateTransfers\<close> never reads.
\<close>

record proto_Transfer =
  pT_Id :: string
  pT_DebitAccountId :: string
  pT_CreditAccountId :: string
  pT_Amount :: int
  pT_PendingId :: "string option"
  pT_UserData128 :: string
  pT_UserData64 :: int
  pT_UserData32 :: int
  pT_Ledger :: int
  pT_Code :: int
  pT_TransferFlags :: "proto_TransferFlags option"

record CreateTransfersRequest =
  Transfers :: "proto_Transfer list"

record proto_AccountFlags =
  pAF_Linked :: "bool option"
  pAF_DebitsMustNotExceedCredits :: "bool option"
  pAF_CreditsMustNotExceedDebits :: "bool option"
  pAF_History :: "bool option"

record proto_Account =
  pA_Id :: string
  pA_DebitsPending :: int
  pA_DebitsPosted :: int
  pA_CreditsPending :: int
  pA_CreditsPosted :: int
  pA_UserData128 :: string
  pA_UserData64 :: int
  pA_UserData32 :: int
  pA_Ledger :: int
  pA_Code :: int
  pA_Flags :: "proto_AccountFlags option"

record CreateAccountsRequest =
  Accounts :: "proto_Account list"

record TransferFlags =
  TF_Linked :: bool
  TF_Pending :: bool
  TF_PostPendingTransfer :: bool
  TF_VoidPendingTransfer :: bool
  TF_BalancingDebit :: bool
  TF_BalancingCredit :: bool

record AccountFlags =
  AF_Linked :: bool
  AF_DebitsMustNotExceedCredits :: bool
  AF_CreditsMustNotExceedDebits :: bool
  AF_History :: bool

record Transfer =
  T_ID :: Uint128
  T_DebitAccountID :: Uint128
  T_CreditAccountID :: Uint128
  T_Amount :: Uint128
  T_PendingID :: Uint128
  T_UserData128 :: Uint128
  T_UserData64 :: "64 word"
  T_UserData32 :: "32 word"
  T_Timeout :: "32 word"
  T_Ledger :: "32 word"
  T_Code :: "16 word"
  T_Flags :: "16 word"
  T_Timestamp :: "64 word"

record Account =
  A_ID :: Uint128
  A_DebitsPending :: Uint128
  A_DebitsPosted :: Uint128
  A_CreditsPending :: Uint128
  A_CreditsPosted :: Uint128
  A_UserData128 :: Uint128
  A_UserData64 :: "64 word"
  A_UserData32 :: "32 word"
  A_Ledger :: "32 word"
  A_Code :: "16 word"
  A_Flags :: "16 word"

record TransferEventResult =
  TER_Index :: "32 word"
  TER_Result :: "32 word"

record AccountEventResult =
  AER_Index :: "32 word"
  AER_Result :: "32 word"

record TimedPayloadResponse =
  Results :: "TransferEventResult list"
  Error :: "go_error option"

text \<open>A channel is named by the number \<open>make\<close> gave it.\<close>

record TimedPayload =
  tp_c :: nat
  tp_payload :: "Transfer list"

section \<open>Collaborators\<close>

text \<open>
  What the package calls and does not define: the standard library's parsers, the two
  hex decoders, the flag encoders, the TigerBeetle client (a state \<open>'tb\<close> and two
  operations on it, each returning Go's pair of results and error) and the \<open>String\<close>
  methods of the result codes. They are parameters of every definition below.
\<close>

record 'tb deps =
  strconv_Atoi :: "string \<Rightarrow> int \<times> go_error option"
  time_ParseDuration :: "string \<Rightarrow> Duration \<times> go_error option"
  shared_HexStringToUint128 :: "string \<Rightarrow> go_error + Uint128"
  types_HexStringToUint128 :: "string \<Rightarrow> go_error + Uint128"
  TransferFlags_ToUint16 :: "TransferFlags \<Rightarrow> 16 word"
  AccountFlags_ToUint16 :: "AccountFlags \<Rightarrow> 16 word"
  TB_CreateTransfers :: "'tb \<Rightarrow> Transfer list \<Rightarrow> (TransferEventResult list \<times> go_error option) \<times> 'tb"
  TB_CreateAccounts :: "'tb \<Rightarrow> Account list \<Rightarrow> (AccountEventResult list \<times> go_error option) \<times> 'tb"
  CreateTransferResult_String :: "32 word \<Rightarrow> string"
  CreateAccountResult_String :: "32 word \<Rightarrow> string"

section \<open>The world the handlers act on\<close>

text \<open>
  The state of the TigerBeetle client, the calls made on it so far, the payloads handed
  to \<open>TimedBuf.Put\<close> so far, and the channels: for each channel the values sent on it and
  not yet received. A send deposits its value, a receive takes the oldest one; that a
  send waits for its receiver is not modelled.
\<close>

datatype tb_call = CallCreateTransfers "Transfer list" | CallCreateAccounts "Account list"

record 'tb world =
  tb_state :: 'tb
  tb_calls :: "tb_call list"
  puts :: "TimedPayload list"
  chans :: "nat \<Rightarrow> TimedPayloadResponse list"
  next_chan :: nat

definition call_CreateTransfers ::
  "'tb deps \<Rightarrow> Transfer list \<Rightarrow> 'tb world \<Rightarrow> (TransferEventResult list \<times> go_error option) \<times> 'tb world" where
  "call_CreateTransfers d transfers w =
     (case TB_CreateTransfers d (tb_state w) transfers of
        (r, tb') \<Rightarrow> (r, w\<lparr>tb_state := tb', tb_calls := tb_calls w @ [CallCreateTransfers transfers]\<rparr>))"

definition call_CreateAccounts ::
  "'tb deps \<Rightarrow> Account list \<Rightarrow> 'tb world \<Rightarrow> (AccountEventResult list \<times> go_error option) \<times> 'tb world" where
  "call_CreateAccounts d accounts w =
     (case TB_CreateAccounts d (tb_state w) accounts of
        (r, tb') \<Rightarrow> (r, w\<lparr>tb_state := tb', tb_calls := tb_calls w @ [CallCreateAccounts accounts]\<rparr>))"

definition make_chan :: "'tb world \<Rightarrow> nat \<times> 'tb world" where
  "make_chan w = (next_chan w, w\<lparr>chans := (chans w)(next_chan w := []), next_chan := Suc (next_chan w)\<rparr>)"

definition send :: "nat \<Rightarrow> TimedPayloadResponse \<Rightarrow> 'tb world \<Rightarrow> 'tb world" where
  "send ch v w = w\<lparr>chans := (chans w)(ch := chans w ch @ [v])\<rparr>"


section \<open>The flush function of \<open>NewApp\<close>\<close>

text \<open>
  The function literal passed to \<open>timedbuf.New\<close>: it appends the payloads into one slice,
  calls the client once, and sends the one response on the channel of every payload.
\<close>

definition collect_transfers :: "TimedPayload list \<Rightarrow> Transfer list" where
  "collect_transfers payloads = foldl (\<lambda>transfers p. transfers @ tp_payload p) [] payloads"

definition send_all :: "TimedPayload list \<Rightarrow> TimedPayloadResponse \<Rightarrow> 'tb world \<Rightarrow> 'tb world" where
  "send_all payloads res w = foldl (\<lambda>w' p. send (tp_c p) res w') w payloads"

definition flushFn :: "'tb deps \<Rightarrow> TimedPayload list \<Rightarrow> 'tb world \<Rightarrow> 'tb world" where
  "flushFn d payloads w =
     (let transfers = collect_transfers payloads in
      case call_CreateTransfers d transfers w of
        ((results, err), w1) \<Rightarrow>
          (let res = \<lparr>Results = results, Error = err\<rparr>
           in send_all payloads res w1))"

section \<open>Translating a request\<close>

text \<open>
  The body of the loop over \<open>in.Transfers\<close>: every \<open>return nil, err\<close> is a \<open>Returned\<close>
  failure, and reading the fields of a nil \<open>TransferFlags\<close> is a panic.
\<close>

definition translateTransfer :: "'tb deps \<Rightarrow> proto_Transfer \<Rightarrow> failure + Transfer" where
  "translateTransfer d inTransfer =
     (case shared_HexStringToUint128 d (pT_Id inTransfer) of
        Inl err \<Rightarrow> Inl (Returned err)
      | Inr id128 \<Rightarrow>
     (case pT_TransferFlags inTransfer of
        None \<Rightarrow> Inl (Panicked NilPointerDereference)
      | Some fl \<Rightarrow>
     (let flags = \<lparr>TF_Linked = FromPtrOr (pTF_Linked fl) False,
                   TF_Pending = FromPtrOr (pTF_Pending fl) False,
                   TF_PostPendingTransfer = FromPtrOr (pTF_PostPendingTransfer fl) False,
                   TF_VoidPendingTransfer = FromPtrOr (pTF_VoidPendingTransfer fl) False,
                   TF_BalancingDebit = FromPtrOr (pTF_BalancingDebit fl) False,
                   TF_BalancingCredit = FromPtrOr (pTF_BalancingCredit fl) False\<rparr> in
     (case shared_HexStringToUint128 d (pT_DebitAccountId inTransfer) of
        Inl err \<Rightarrow> Inl (Returned err)
      | Inr debitAccountID \<Rightarrow>
     (case shared_HexStringToUint128 d (pT_CreditAccountId inTransfer) of
        Inl err \<Rightarrow> Inl (Returned err)
      | Inr creditAccountID \<Rightarrow>
     (case shared_HexStringToUint128 d (FromPtrOr (pT_PendingId inTransfer) []) of
        Inl err \<Rightarrow> Inl (Returned err)
      | Inr pendingID \<Rightarrow>
     (case types_HexStringToUint128 d (pT_UserData128 inTransfer) of
        Inl err \<Rightarrow> Inl (Returned err)
      | Inr userData128 \<Rightarrow>
        Inr \<lparr>T_ID = id128,
             T_DebitAccountID = debitAccountID,
             T_CreditAccountID = creditAccountID,
             T_Amount = ToUint128 (uint64 (pT_Amount inTransfer)),
             T_PendingID = pendingID,
             T_UserData128 = userData128,
             T_UserData64 = uint64 (pT_UserData64 inTransfer),
             T_UserData32 = uint32 (pT_UserData32 inTransfer),
             T_Timeout = 0,
             T_Ledger = uint32 (pT_Ledger inTransfer),
             T_Code = uint16 (pT_Ledger inTransfer),
             T_Flags = TransferFlags_ToUint16 d flags,
             T_Timestamp = 0\<rparr>)))))))"

text \<open>The loop itself: the slice built so far is the accumulator; the first failure ends it.\<close>

fun translateTransfers :: "'tb deps \<Rightarrow> proto_Transfer list \<Rightarrow> Transfer list \<Rightarrow> failure + Transfer list" where
  "translateTransfers d [] transfers = Inr transfers"
| "translateTransfers d (inTransfer # rest) transfers =
     (case translateTransfer d inTransfer of
        Inl f \<Rightarrow> Inl f
      | Inr t \<Rightarrow> translateTransfers d rest (transfers @ [t]))"

definition translateAccount :: "'tb deps \<Rightarrow> proto_Account \<Rightarrow> failure + Account" where
  "translateAccount d inAccount =
     (case shared_HexStringToUint128 d (pA_Id inAccount) of
        Inl err \<Rightarrow> Inl (Returned err)
      | Inr id128 \<Rightarrow>
     (case types_HexStringToUint128 d (pA_UserData128 inAccount) of
        Inl err \<Rightarrow> Inl (Returned err)
      | Inr userData128 \<Rightarrow>
     (case pA_Flags inAccount of
        None \<Rightarrow> Inl (Panicked NilPointerDereference)
      | Some fl \<Rightarrow>
     (let flags = \<lparr>AF_Linked = FromPtrOr (pAF_Linked fl) False,
                   AF_DebitsMustNotExceedCredits = FromPtrOr (pAF_DebitsMustNotExceedCredits fl) False,
                   AF_CreditsMustNotExceedDebits = FromPtrOr (pAF_CreditsMustNotExceedDebits fl) False,
                   AF_History = FromPtrOr (pAF_History fl) False\<rparr> in
        Inr \<lparr>A_ID = id128,
             A_DebitsPending = ToUint128 (uint64 (pA_DebitsPending inAccount)),
             A_DebitsPosted = ToUint128 (uint64 (pA_DebitsPosted inAccount)),
             A_CreditsPending = ToUint128 (uint64 (pA_CreditsPending inAccount)),
             A_CreditsPosted = ToUint128 (uint64 (pA_CreditsPosted inAccount)),
             A_UserData128 = userData128,
             A_UserData64 = uint64 (pA_UserData64 inAccount),
             A_UserData32 = uint32 (pA_UserData32 inAccount),
             A_Ledger = uint32 (pA_Ledger inAccount),
             A_Code = uint16 (pA_Code inAccount),
             A_Flags = AccountFlags_ToUint16 d flags\<rparr>))))"

fun translateAccounts :: "'tb deps \<Rightarrow> proto_Account list \<Rightarrow> Account list \<Rightarrow> failure + Account list" where
  "translateAccounts d [] accounts = Inr accounts"
| "translateAccounts d (inAccount # rest) accounts =
     (case translateAccount d inAccount of
        Inl f \<Rightarrow> Inl f
      | Inr a \<Rightarrow> translateAccounts d rest (accounts @ [a]))"

section \<open>The handlers\<close>

datatype CreateAccountsReply = CreateAccountsReply "string list"

datatype CreateTransfersReply = CreateTransfersReply "string list"

definition CreateAccounts ::
  "'tb deps \<Rightarrow> CreateAccountsRequest \<Rightarrow> 'tb world \<Rightarrow> (failure + CreateAccountsReply) \<times> 'tb world" where
  "CreateAccounts d req w =
     (if length (Accounts req) = 0 then (Inl (Returned ErrZeroAccounts), w)
      else
        (case translateAccounts d (Accounts req) [] of
           Inl f \<Rightarrow> (Inl f, w)
         | Inr accounts \<Rightarrow>
             (case call_CreateAccounts d accounts w of
                ((resp, err), w1) \<Rightarrow>
                  (case err of
                     Some e \<Rightarrow> (Inl (Returned e), w1)
                   | None \<Rightarrow>
                       (Inr (CreateAccountsReply
                          (foldl (\<lambda>resArr r. resArr @ [CreateAccountResult_String d (AER_Result r)]) [] resp)),
                        w1)))))"

text \<open>
  The end of \<open>CreateTransfers\<close>, common to both modes: from \<open>if err != nil\<close> to the reply.
\<close>

definition CreateTransfers_reply ::
  "'tb deps \<Rightarrow> TransferEventResult list \<Rightarrow> go_error option \<Rightarrow> failure + CreateTransfersReply" where
  "CreateTransfers_reply d results err =
     (case err of
        Some e \<Rightarrow> Inl (Returned e)
      | None \<Rightarrow>
          Inr (CreateTransfersReply
            (foldl (\<lambda>resArr r. resArr @ [CreateTransferResult_String d (TER_Result r)]) [] results)))"

text \<open>
  A handler has finished, with its reply or its failure, or it is blocked receiving from
  a channel.
\<close>

datatype 'a rpc = Finished "failure + 'a" | Blocked nat

text \<open>
  Modelled from the spec: the state of the coalescer \<open>timedbuf.TimedBuf\<close>, which is not part
  of the package: its capacity and delay limits, the live Batch, and, for the record
  only, the Batches already retired, oldest first.
\<close>

record TimedBuf_state =
  capacity :: int
  delay :: Duration
  batch :: "TimedPayload list"
  flushed :: "TimedPayload list list"

text \<open>The client \<open>TB\<close> of an \<open>App\<close> is the client of \<open>deps\<close>; \<open>None\<close> is the nil \<open>TimedBuf\<close>.\<close>

record App =
  TimedBuf :: "TimedBuf_state option"

text \<open>
  \<open>CreateTransfers\<close> up to where it can block: in buffered mode it makes its channel,
  puts its payload and waits; otherwise it calls the client and replies.
\<close>

definition CreateTransfers ::
  "'tb deps \<Rightarrow> App \<Rightarrow> CreateTransfersRequest \<Rightarrow> 'tb world \<Rightarrow> CreateTransfersReply rpc \<times> 'tb world" where
  "CreateTransfers d s req w =
     (if length (Transfers req) = 0 then (Finished (Inl (Returned ErrZeroTransfers)), w)
      else
        (case translateTransfers d (Transfers req) [] of
           Inl f \<Rightarrow> (Finished (Inl f), w)
         | Inr transfers \<Rightarrow>
             (case TimedBuf s of
                Some b \<Rightarrow>
                  (case make_chan w of
                     (ch, w1) \<Rightarrow>
                       (Blocked ch, w1\<lparr>puts := puts w1 @ [\<lparr>tp_c = ch, tp_payload = transfers\<rparr>]\<rparr>))
              | None \<Rightarrow>
                  (case call_CreateTransfers d transfers w of
                     ((results, err), w1) \<Rightarrow> (Finished (CreateTransfers_reply d results err), w1)))))"



section \<open>The coalescer\<close>

text \<open>
  Modelled from the spec: the constructor \<open>timedbuf.New\<close> of the coalescer, which is not
  part of the package. "Invalid capacity (\<le>0) or delay (\<le>0) is a configuration error
  reported at construction, not at call time." \<open>New\<close> has one result, so the report is a
  panic. The Batch is born empty.
\<close>

definition timedbuf_New :: "int \<Rightarrow> Duration \<Rightarrow> failure + TimedBuf_state" where
  "timedbuf_New cap dl =
     (if cap \<le> 0 \<or> dl \<le> 0 then Inl (Panicked InvalidConfiguration)
      else Inr \<lparr>capacity = cap, delay = dl, batch = [], flushed = []\<rparr>)"

text \<open>
  Modelled from the spec: what happens to a coalescer. \<open>Put\<close> and the firing of the
  deadline timer exclude each other, so a history is a sequence of the two.
\<close>

datatype event = Put TimedPayload | Deadline

text \<open>
  Modelled from the spec: the flush of a Batch. The Batch leaves the live state, a new
  empty one takes its place, and the flush function is invoked once on its items in the
  order they were appended.
\<close>

definition retire :: "'tb deps \<Rightarrow> TimedBuf_state \<times> 'tb world \<Rightarrow> TimedBuf_state \<times> 'tb world" where
  "retire d s =
     (case s of
        (b, w) \<Rightarrow> (b\<lparr>batch := [], flushed := flushed b @ [batch b]\<rparr>, flushFn d (batch b) w))"

text \<open>
  Modelled from the spec: \<open>Put\<close> "appends item to the live Batch; if this append makes the
  Batch reach capacity, synchronously triggers flush of that Batch"; the timer, when it
  fires, "triggers flush of whatever Batch is still live at that moment", and "firing on
  an already-flushed Batch is a no-op".
\<close>

fun timedbuf_step :: "'tb deps \<Rightarrow> event \<Rightarrow> TimedBuf_state \<times> 'tb world \<Rightarrow> TimedBuf_state \<times> 'tb world" where
  "timedbuf_step d (Put item) (b, w) =
     (let b1 = b\<lparr>batch := batch b @ [item]\<rparr>
      in if capacity b1 \<le> int (length (batch b1)) then retire d (b1, w) else (b1, w))"
| "timedbuf_step d Deadline (b, w) =
     (if batch b = [] then (b, w) else retire d (b, w))"

text \<open>Modelled from the spec: a history of the coalescer, event after event.\<close>

definition timedbuf_run :: "'tb deps \<Rightarrow> event list \<Rightarrow> TimedBuf_state \<times> 'tb world \<Rightarrow> TimedBuf_state \<times> 'tb world" where
  "timedbuf_run d evs s = foldl (\<lambda>s' ev. timedbuf_step d ev s') s evs"

fun put_items :: "event list \<Rightarrow> TimedPayload list" where
  "put_items [] = []"
| "put_items (Put item # evs) = item # put_items evs"
| "put_items (Deadline # evs) = put_items evs"

text \<open>
  What a history must keep true: the retired Batches and the live one hold, in order, the
  given items; the calls on the client are the given earlier ones followed by one call
  for each retired Batch; no retired Batch is empty.
\<close>

definition batches_ok :: "tb_call list \<Rightarrow> TimedPayload list \<Rightarrow> TimedBuf_state \<times> 'tb world \<Rightarrow> bool" where
  "batches_ok before items s \<longleftrightarrow>
     concat (flushed (fst s)) @ batch (fst s) = items
     \<and> tb_calls (snd s) = before @ map (\<lambda>B. CallCreateTransfers (concat (map tp_payload B))) (flushed (fst s))
     \<and> [] \<notin> set (flushed (fst s))"

section \<open>Construction\<close>

type_synonym environ = "string \<Rightarrow> string option"

definition os_Getenv :: "environ \<Rightarrow> string \<Rightarrow> string" where
  "os_Getenv env k = (case env k of None \<Rightarrow> [] | Some v \<Rightarrow> v)"

text \<open>The two arguments \<open>NewApp\<close> computes for \<open>timedbuf.New\<close>.\<close>

definition NewApp_bufSize :: "'tb deps \<Rightarrow> environ \<Rightarrow> int" where
  "NewApp_bufSize d env =
     (case strconv_Atoi d (os_Getenv env ''BUFFER_SIZE'') of
        (bufSize, _) \<Rightarrow> if bufSize = 0 then 1024 else bufSize)"

definition NewApp_bufDelay :: "'tb deps \<Rightarrow> environ \<Rightarrow> Duration" where
  "NewApp_bufDelay d env =
     (case time_ParseDuration d (os_Getenv env ''BUFFER_DELAY'') of
        (bufDelay, err) \<Rightarrow> (case err of Some _ \<Rightarrow> 100 * Millisecond | None \<Rightarrow> bufDelay))"

text \<open>\<open>NewApp\<close> has no error result: it fails only by a panic of \<open>timedbuf.New\<close>.\<close>

definition NewApp :: "'tb deps \<Rightarrow> environ \<Rightarrow> failure + App" where
  "NewApp d env =
     (if os_Getenv env ''IS_BUFFERED'' = ''true'' then
        (case timedbuf_New (NewApp_bufSize d env) (NewApp_bufDelay d env) of
           Inl f \<Rightarrow> Inl f
         | Inr b \<Rightarrow> Inr \<lparr>TimedBuf = Some b\<rparr>)
      else Inr \<lparr>TimedBuf = None\<rparr>)"

section \<open>A concrete setting\<close>

text \<open>
  Stand-ins for the collaborators, to run the definitions on: a decoder that knows three
  identifiers, a client that counts the transfers it has stored and refuses a batch of
  more than three, reporting one result per transfer otherwise.
\<close>

definition example_hex :: "string \<Rightarrow> go_error + Uint128" where
  "example_hex s =
     (if s = [] then Inr 0 else if s = ''a'' then Inr 10 else if s = ''b'' then Inr 11
      else Inl (LibError ''invalid hex''))"

definition example_client :: "nat \<Rightarrow> Transfer list \<Rightarrow> (TransferEventResult list \<times> go_error option) \<times> nat" where
  "example_client n ts =
     (if 3 < length ts then (([], Some (LibError ''too many events'')), n)
      else ((map (\<lambda>t. \<lparr>TER_Index = ucast (T_ID t), TER_Result = 46\<rparr>) ts, None), n + length ts))"

definition example_deps :: "nat deps" where
  "example_deps =
     \<lparr>strconv_Atoi = (\<lambda>s. if s = ''0'' then (0, None) else if s = ''2'' then (2, None)
                          else if s = ''-5'' then (-5, None)
                          else (0, Some (LibError ''invalid syntax''))),
      time_ParseDuration = (\<lambda>s. if s = ''0'' then (0, None) else if s = ''250ms'' then (250000000, None)
                          else (0, Some (LibError ''invalid duration''))),
      shared_HexStringToUint128 = example_hex,
      types_HexStringToUint128 = example_hex,
      TransferFlags_ToUint16 = (\<lambda>f. if TF_Linked f then 1 else 0),
      AccountFlags_ToUint16 = (\<lambda>f. if AF_Linked f then 1 else 0),
      TB_CreateTransfers = example_client,
      TB_CreateAccounts = (\<lambda>n as. (([], None), n)),
      CreateTransferResult_String = (\<lambda>r. if r = 46 then ''exists'' else ''other''),
      CreateAccountResult_String = (\<lambda>r. ''other'')\<rparr>"

definition example_flags :: proto_TransferFlags where
  "example_flags =
     \<lparr>pTF_Linked = None, pTF_Pending = None, pTF_PostPendingTransfer = None,
      pTF_VoidPendingTransfer = None, pTF_BalancingDebit = None, pTF_BalancingCredit = None\<rparr>"

definition example_transfer :: "string \<Rightarrow> proto_Transfer" where
  "example_transfer i =
     \<lparr>pT_Id = i, pT_DebitAccountId = ''a'', pT_CreditAccountId = ''b'', pT_Amount = 7,
      pT_PendingId = None, pT_UserData128 = [], pT_UserData64 = 0, pT_UserData32 = 0,
      pT_Ledger = 65537, pT_Code = 9, pT_TransferFlags = Some example_flags\<rparr>"


definition example_world :: "nat world" where
  "example_world = \<lparr>tb_state = 0, tb_calls = [], puts = [], chans = (\<lambda>_. []), next_chan = 0\<rparr>"

definition example_payload :: "nat \<Rightarrow> Uint128 \<Rightarrow> TimedPayload" where
  "example_payload ch i =
     \<lparr>tp_c = ch,
      tp_payload = [\<lparr>T_ID = i, T_DebitAccountID = 10, T_CreditAccountID = 11, T_Amount = 7,
                     T_PendingID = 0, T_UserData128 = 0, T_UserData64 = 0, T_UserData32 = 0,
                     T_Timeout = 0, T_Ledger = 65537, T_Code = 1, T_Flags = 0, T_Timestamp = 0\<rparr>]\<rparr>"

section \<open>Properties of the flush function\<close>

lemma foldl_append_payloads:
  "foldl (\<lambda>transfers p. transfers @ tp_payload p) acc payloads = acc @ concat (map tp_payload payloads)"
  by (induction payloads arbitrary: acc) simp_all

lemma collect_transfers_concat:
  "collect_transfers payloads = concat (map tp_payload payloads)"
  by (simp add: collect_transfers_def foldl_append_payloads)

lemma send_all_tb_calls: "tb_calls (send_all payloads res w) = tb_calls w"
  unfolding send_all_def by (induction payloads arbitrary: w) (simp_all add: send_def)


lemma send_all_puts: "puts (send_all payloads res w) = puts w"
  unfolding send_all_def by (induction payloads arbitrary: w) (simp_all add: send_def)

lemma flushFn_tb_calls:
  "tb_calls (flushFn d payloads w) =
     tb_calls w @ [CallCreateTransfers (concat (map tp_payload payloads))]"
  by (simp add: flushFn_def call_CreateTransfers_def collect_transfers_concat
      send_all_tb_calls Let_def split: prod.splits)

text \<open>
  C1. Order preservation: for every batch the flush function is given, the client's
  \<open>CreateTransfers\<close> is called with the concatenation of the payloads in the order of
  the batch, and that is the one call the flush adds.
\<close>

theorem C1_flush_concatenates_in_order:
  "tb_calls (flushFn d payloads w) = tb_calls w @ [CallCreateTransfers (concat (map tp_payload payloads))]
   \<and> collect_transfers (ps @ qs) = collect_transfers ps @ collect_transfers qs
   \<and> collect_transfers [p] = tp_payload p"
proof -
  have call: "tb_calls (flushFn d payloads w)
      = tb_calls w @ [CallCreateTransfers (concat (map tp_payload payloads))]"
    by (rule flushFn_tb_calls)
  have app: "collect_transfers (ps @ qs) = collect_transfers ps @ collect_transfers qs"
    by (simp add: collect_transfers_concat)
  have one: "collect_transfers [p] = tp_payload p"
    by (simp add: collect_transfers_concat)
  from call app one show ?thesis by blast
qed

theorem C1_witness:
  "tb_calls (flushFn example_deps [example_payload 0 1, example_payload 1 2] example_world)
     = [CallCreateTransfers (tp_payload (example_payload 0 1) @ tp_payload (example_payload 1 2))]"
  using C1_flush_concatenates_in_order [of example_deps
      "[example_payload 0 1, example_payload 1 2]" example_world]
  by (simp add: example_world_def)













text \<open>
  C8. Empty requests are rejected first: \<open>CreateTransfers\<close> with no transfers returns
  \<open>ErrZeroTransfers\<close> and \<open>CreateAccounts\<close> with no accounts returns \<open>ErrZeroAccounts\<close>, and
  the world is left as it was: nothing is put into the buffer and the client is not
  called.
\<close>

theorem C8_empty_requests_rejected:
  assumes "Transfers req = []" and "Accounts areq = []"
  shows "CreateTransfers d s req w = (Finished (Inl (Returned ErrZeroTransfers)), w)
    \<and> CreateAccounts d areq w = (Inl (Returned ErrZeroAccounts), w)"
  using assms by (simp add: CreateTransfers_def CreateAccounts_def)

theorem C8_witness:
  "CreateTransfers example_deps \<lparr>TimedBuf = Some \<lparr>capacity = 2, delay = 1, batch = [], flushed = []\<rparr>\<rparr>
      \<lparr>Transfers = []\<rparr> example_world
     = (Finished (Inl (Returned ErrZeroTransfers)), example_world)
   \<and> CreateAccounts example_deps \<lparr>Accounts = []\<rparr> example_world
     = (Inl (Returned ErrZeroAccounts), example_world)"
  using C8_empty_requests_rejected [of "\<lparr>Transfers = []\<rparr>" "\<lparr>Accounts = []\<rparr>" example_deps
      "\<lparr>TimedBuf = Some \<lparr>capacity = 2, delay = 1, batch = [], flushed = []\<rparr>\<rparr>" example_world]
  by simp

lemma translateTransfer_fixed_fields:
  assumes "translateTransfer d x = Inr t"
  shows "T_Code t = uint16 (pT_Ledger x) \<and> T_Ledger t = uint32 (pT_Ledger x)
    \<and> T_Timeout t = 0 \<and> T_Timestamp t = 0"
  using assms
  by (auto simp: translateTransfer_def Let_def split: sum.splits option.splits)

lemma translateTransfer_ignores_Code:
  "translateTransfer d (x\<lparr>pT_Code := c\<rparr>) = translateTransfer d x"
  by (simp add: translateTransfer_def cong: sum.case_cong option.case_cong)

lemma translateTransfers_acc:
  assumes "translateTransfers d ins acc = Inr ts"
  shows "\<exists>ts'. ts = acc @ ts' \<and> list_all2 (\<lambda>x t. translateTransfer d x = Inr t) ins ts'"
  using assms
proof (induction ins arbitrary: acc)
  case Nil
  then show ?case by simp
next
  case (Cons x ins)
  then obtain t where t: "translateTransfer d x = Inr t"
    and rest: "translateTransfers d ins (acc @ [t]) = Inr ts"
    by (auto split: sum.splits)
  from Cons.IH [OF rest] obtain ts' where "ts = (acc @ [t]) @ ts'"
    and "list_all2 (\<lambda>x t. translateTransfer d x = Inr t) ins ts'" by blast
  with t have "ts = acc @ (t # ts') \<and> list_all2 (\<lambda>x t. translateTransfer d x = Inr t) (x # ins) (t # ts')"
    by simp
  then show ?case by blast
qed

lemma translateTransfers_ignores_Code:
  "translateTransfers d (map (\<lambda>x. x\<lparr>pT_Code := g x\<rparr>) ins) acc = translateTransfers d ins acc"
  by (induction ins arbitrary: acc)
    (simp_all add: translateTransfer_ignores_Code cong: sum.case_cong)

text \<open>
  C9. In every translated transfer of a request the code is \<open>uint16\<close> of the ledger of the
  request's transfer, and timeout and timestamp are 0; whatever the request's transfers
  carry as their own code leaves the translation unchanged.
\<close>

theorem C9_code_is_ledger:
  assumes "translateTransfers d ins [] = Inr ts"
  shows "length ts = length ins
    \<and> (\<forall>i<length ins. translateTransfer d (ins ! i) = Inr (ts ! i)
          \<and> T_Code (ts ! i) = uint16 (pT_Ledger (ins ! i))
          \<and> T_Timeout (ts ! i) = 0 \<and> T_Timestamp (ts ! i) = 0)
    \<and> translateTransfers d (map (\<lambda>x. x\<lparr>pT_Code := g x\<rparr>) ins) [] = Inr ts"
proof -
  from translateTransfers_acc [OF assms]
  have all: "list_all2 (\<lambda>x t. translateTransfer d x = Inr t) ins ts" by simp
  then have len: "length ts = length ins" by (simp add: list_all2_lengthD)
  have "translateTransfer d (ins ! i) = Inr (ts ! i)
      \<and> T_Code (ts ! i) = uint16 (pT_Ledger (ins ! i)) \<and> T_Timeout (ts ! i) = 0 \<and> T_Timestamp (ts ! i) = 0"
    if "i < length ins" for i
    using list_all2_nthD [OF all that] translateTransfer_fixed_fields by blast
  with len assms show ?thesis by (simp add: translateTransfers_ignores_Code)
qed

theorem C9_witness:
  "translateTransfers example_deps [example_transfer ''a''] [] = Inr (tp_payload (example_payload 0 10))
   \<and> pT_Ledger (example_transfer ''a'') = 65537 \<and> pT_Code (example_transfer ''a'') = 9
   \<and> T_Code (tp_payload (example_payload 0 10) ! 0) = 1
   \<and> T_Timeout (tp_payload (example_payload 0 10) ! 0) = 0
   \<and> T_Timestamp (tp_payload (example_payload 0 10) ! 0) = 0"
  using C9_code_is_ledger [of example_deps "[example_transfer ''a'']" "tp_payload (example_payload 0 10)"]
  by (simp add: example_transfer_def example_payload_def example_deps_def example_hex_def
      example_flags_def translateTransfer_def FromPtrOr_def ToUint128_def uint64_def uint32_def
      uint16_def)














text \<open>
  C7. With \<open>IS_BUFFERED\<close> set to \<open>true\<close>, the capacity \<open>NewApp\<close> passes to \<open>timedbuf.New\<close> is
  1024 when \<open>BUFFER_SIZE\<close> is absent (it then reads as the empty string, which \<open>Atoi\<close>
  turns into 0) or parses to 0, and the delay is 100 milliseconds when \<open>BUFFER_DELAY\<close>
  fails to parse.
\<close>

theorem C7_buffer_defaults:
  assumes "os_Getenv env ''IS_BUFFERED'' = ''true''"
  shows "NewApp d env =
       (case timedbuf_New (NewApp_bufSize d env) (NewApp_bufDelay d env) of
          Inl f \<Rightarrow> Inl f
        | Inr b \<Rightarrow> Inr \<lparr>TimedBuf = Some b\<rparr>)
    \<and> ((env ''BUFFER_SIZE'' = None \<and> fst (strconv_Atoi d []) = 0)
          \<or> fst (strconv_Atoi d (os_Getenv env ''BUFFER_SIZE'')) = 0
        \<longrightarrow> NewApp_bufSize d env = 1024)
    \<and> (snd (time_ParseDuration d (os_Getenv env ''BUFFER_DELAY'')) \<noteq> None
        \<longrightarrow> NewApp_bufDelay d env = 100000000)
    \<and> (fst (strconv_Atoi d (os_Getenv env ''BUFFER_SIZE'')) = 0
         \<and> snd (time_ParseDuration d (os_Getenv env ''BUFFER_DELAY'')) \<noteq> None
        \<longrightarrow> NewApp d env = Inr \<lparr>TimedBuf = Some \<lparr>capacity = 1024, delay = 100000000,
                                                    batch = [], flushed = []\<rparr>\<rparr>)"
  using assms
  by (auto simp: NewApp_def NewApp_bufSize_def NewApp_bufDelay_def timedbuf_New_def
      Millisecond_def os_Getenv_def split: prod.splits option.splits)

theorem C7_witness:
  "NewApp example_deps [''IS_BUFFERED'' \<mapsto> ''true'']
     = Inr \<lparr>TimedBuf = Some \<lparr>capacity = 1024, delay = 100000000, batch = [], flushed = []\<rparr>\<rparr>
   \<and> NewApp_bufSize example_deps [''IS_BUFFERED'' \<mapsto> ''true'', ''BUFFER_SIZE'' \<mapsto> ''0''] = 1024
   \<and> NewApp_bufDelay example_deps [''IS_BUFFERED'' \<mapsto> ''true'', ''BUFFER_DELAY'' \<mapsto> ''soon''] = 100000000"
  using C7_buffer_defaults [of "[''IS_BUFFERED'' \<mapsto> ''true'']" example_deps]
    C7_buffer_defaults [of "[''IS_BUFFERED'' \<mapsto> ''true'', ''BUFFER_SIZE'' \<mapsto> ''0'']" example_deps]
    C7_buffer_defaults [of "[''IS_BUFFERED'' \<mapsto> ''true'', ''BUFFER_DELAY'' \<mapsto> ''soon'']" example_deps]
  by (simp add: os_Getenv_def example_deps_def NewApp_def NewApp_bufSize_def NewApp_bufDelay_def
      timedbuf_New_def Millisecond_def)

text \<open>
  C6. A capacity or a delay that is not positive is a configuration error of the
  constructor, and it surfaces from \<open>NewApp\<close>: whenever the capacity or the delay \<open>NewApp\<close>
  passes on is not positive, \<open>NewApp\<close> fails with that error, so every \<open>App\<close> it returns
  holds a coalescer with a positive capacity and a positive delay, and no handler meets
  an invalid one.
\<close>

theorem C6_invalid_configuration_at_construction:
  assumes "os_Getenv env ''IS_BUFFERED'' = ''true''"
  shows "(cap \<le> 0 \<or> dl \<le> 0 \<longrightarrow> timedbuf_New cap dl = Inl (Panicked InvalidConfiguration))
    \<and> (NewApp_bufSize d env \<le> 0 \<or> NewApp_bufDelay d env \<le> 0
        \<longrightarrow> NewApp d env = Inl (Panicked InvalidConfiguration))
    \<and> (\<forall>app b. NewApp d env = Inr app \<longrightarrow> TimedBuf app = Some b
        \<longrightarrow> 0 < capacity b \<and> 0 < delay b)"
  using assms
  by (auto simp: NewApp_def timedbuf_New_def split: if_splits)

theorem C6_witness:
  "NewApp example_deps [''IS_BUFFERED'' \<mapsto> ''true'', ''BUFFER_SIZE'' \<mapsto> ''-5'', ''BUFFER_DELAY'' \<mapsto> ''250ms'']
     = Inl (Panicked InvalidConfiguration)
   \<and> NewApp example_deps [''IS_BUFFERED'' \<mapsto> ''true'', ''BUFFER_SIZE'' \<mapsto> ''2'', ''BUFFER_DELAY'' \<mapsto> ''0'']
     = Inl (Panicked InvalidConfiguration)
   \<and> NewApp example_deps [''IS_BUFFERED'' \<mapsto> ''true'', ''BUFFER_SIZE'' \<mapsto> ''2'', ''BUFFER_DELAY'' \<mapsto> ''250ms'']
     = Inr \<lparr>TimedBuf = Some \<lparr>capacity = 2, delay = 250000000, batch = [], flushed = []\<rparr>\<rparr>"
  using C6_invalid_configuration_at_construction
      [of "[''IS_BUFFERED'' \<mapsto> ''true'', ''BUFFER_SIZE'' \<mapsto> ''-5'', ''BUFFER_DELAY'' \<mapsto> ''250ms'']" "-5" 1 example_deps]
    C6_invalid_configuration_at_construction
      [of "[''IS_BUFFERED'' \<mapsto> ''true'', ''BUFFER_SIZE'' \<mapsto> ''2'', ''BUFFER_DELAY'' \<mapsto> ''0'']" 2 0 example_deps]
  by (simp add: os_Getenv_def example_deps_def NewApp_def NewApp_bufSize_def NewApp_bufDelay_def
      timedbuf_New_def)


lemma put_items_append: "put_items (xs @ ys) = put_items xs @ put_items ys"
  by (induction xs rule: put_items.induct) simp_all

lemma timedbuf_run_snoc:
  "timedbuf_run d (evs @ [ev]) s = timedbuf_step d ev (timedbuf_run d evs s)"
  by (simp add: timedbuf_run_def)

lemma retire_effect:
  "fst (retire d (b, w)) = b\<lparr>batch := [], flushed := flushed b @ [batch b]\<rparr>"
  "tb_calls (snd (retire d (b, w))) = tb_calls w @ [CallCreateTransfers (concat (map tp_payload (batch b)))]"
  by (simp_all add: retire_def flushFn_tb_calls)

lemma timedbuf_step_batches_ok:
  assumes "batches_ok before items s"
  shows "batches_ok before (items @ put_items [ev]) (timedbuf_step d ev s)"
proof -
  obtain b w where s: "s = (b, w)" by (cases s)
  show ?thesis
  proof (cases ev)
    case (Put item)
    with assms s show ?thesis
      by (auto simp: batches_ok_def Let_def retire_effect)
  next
    case Deadline
    with assms s show ?thesis
      by (auto simp: batches_ok_def retire_effect)
  qed
qed

lemma timedbuf_run_batches_ok:
  assumes "batch b0 = []" and "flushed b0 = []"
  shows "batches_ok (tb_calls w) (put_items evs) (timedbuf_run d evs (b0, w))"
proof (induction evs rule: rev_induct)
  case Nil
  from assms show ?case by (simp add: batches_ok_def timedbuf_run_def)
next
  case (snoc ev evs)
  from timedbuf_step_batches_ok [OF snoc.IH, of ev d]
  show ?case by (simp add: timedbuf_run_snoc put_items_append)
qed

lemma deadline_empties: "batch (fst (timedbuf_step d Deadline s)) = []"
  by (cases s) (simp add: retire_effect)

text \<open>
  C4. Exactly-once flush: whatever the order in which \<open>Put\<close> calls and deadlines reach one
  coalescer, the client is called once for each Batch retired, on the concatenated
  payloads of that Batch; the retired Batches followed by the live one are, in order, the
  items put, so that the Batches are disjoint consecutive runs of them; no Batch is
  empty; and once a deadline has fired after the last \<open>Put\<close> the live Batch is empty and
  every item is in exactly one retired Batch.
\<close>

theorem C4_exactly_once_flush:
  assumes "timedbuf_New cap dl = Inr b0"
  shows "tb_calls (snd (timedbuf_run d evs (b0, w)))
       = tb_calls w @ map (\<lambda>B. CallCreateTransfers (concat (map tp_payload B)))
                        (flushed (fst (timedbuf_run d evs (b0, w))))
    \<and> concat (flushed (fst (timedbuf_run d evs (b0, w)))) @ batch (fst (timedbuf_run d evs (b0, w)))
       = put_items evs
    \<and> [] \<notin> set (flushed (fst (timedbuf_run d evs (b0, w))))
    \<and> batch (fst (timedbuf_run d (evs @ [Deadline]) (b0, w))) = []
    \<and> concat (flushed (fst (timedbuf_run d (evs @ [Deadline]) (b0, w)))) = put_items evs"
proof -
  from assms have b0: "batch b0 = []" "flushed b0 = []"
    by (auto simp: timedbuf_New_def split: if_splits)
  note ok = timedbuf_run_batches_ok [OF b0, of w _ d]
  have e: "batch (fst (timedbuf_run d (evs @ [Deadline]) (b0, w))) = []"
    by (simp add: timedbuf_run_snoc deadline_empties)
  from ok [of evs] ok [of "evs @ [Deadline]"] e show ?thesis
    by (simp add: batches_ok_def put_items_append)
qed

theorem C4_witness:
  "timedbuf_New 2 1 = Inr \<lparr>capacity = 2, delay = 1, batch = [], flushed = []\<rparr>
   \<and> flushed (fst (timedbuf_run example_deps
        [Put (example_payload 0 1), Put (example_payload 1 2), Put (example_payload 2 3), Deadline]
        (\<lparr>capacity = 2, delay = 1, batch = [], flushed = []\<rparr>, example_world)))
     = [[example_payload 0 1, example_payload 1 2], [example_payload 2 3]]
   \<and> tb_calls (snd (timedbuf_run example_deps
        [Put (example_payload 0 1), Put (example_payload 1 2), Put (example_payload 2 3), Deadline]
        (\<lparr>capacity = 2, delay = 1, batch = [], flushed = []\<rparr>, example_world)))
     = [CallCreateTransfers (tp_payload (example_payload 0 1) @ tp_payload (example_payload 1 2)),
        CallCreateTransfers (tp_payload (example_payload 2 3))]"
proof -
  have new: "timedbuf_New 2 1 = Inr \<lparr>capacity = 2, delay = 1, batch = [], flushed = []\<rparr>"
    by (simp add: timedbuf_New_def)
  have fl: "flushed (fst (timedbuf_run example_deps
        [Put (example_payload 0 1), Put (example_payload 1 2), Put (example_payload 2 3), Deadline]
        (\<lparr>capacity = 2, delay = 1, batch = [], flushed = []\<rparr>, example_world)))
     = [[example_payload 0 1, example_payload 1 2], [example_payload 2 3]]"
    by (simp add: timedbuf_run_def retire_def Let_def)
  from C4_exactly_once_flush [OF new, of example_deps
      "[Put (example_payload 0 1), Put (example_payload 1 2), Put (example_payload 2 3), Deadline]"
      example_world]
  have "tb_calls (snd (timedbuf_run example_deps
        [Put (example_payload 0 1), Put (example_payload 1 2), Put (example_payload 2 3), Deadline]
        (\<lparr>capacity = 2, delay = 1, batch = [], flushed = []\<rparr>, example_world)))
     = tb_calls example_world @ map (\<lambda>B. CallCreateTransfers (concat (map tp_payload B)))
         (flushed (fst (timedbuf_run example_deps
        [Put (example_payload 0 1), Put (example_payload 1 2), Put (example_payload 2 3), Deadline]
        (\<lparr>capacity = 2, delay = 1, batch = [], flushed = []\<rparr>, example_world))))"
    by blast
  with new fl show ?thesis by (simp add: example_world_def)
qed


end
